theory Spec2Isabelle
  imports Main "HOL-Library.AList"
begin

section \<open>Data model of the room service\<close>

text \<open>
  The room service (\<^verbatim>\<open>backend/src/services/roomService.js\<close>) keeps two JavaScript
  \<^verbatim>\<open>Map\<close>s, \<^verbatim>\<open>rooms\<close> and \<^verbatim>\<open>users\<close>, and every participant keeps three more
  (\<^verbatim>\<open>transports\<close>, \<^verbatim>\<open>producers\<close>, \<^verbatim>\<open>consumers\<close>). A \<^verbatim>\<open>Map\<close> iterates in insertion
  order and \<^verbatim>\<open>set\<close> on a key that is present keeps the key's position, so a \<^verbatim>\<open>Map\<close> is
  an association list: \<^verbatim>\<open>get\<close> is \<^const>\<open>map_of\<close>, \<^verbatim>\<open>set\<close> is \<^const>\<open>AList.update\<close>,
  \<^verbatim>\<open>delete\<close> is \<^const>\<open>AList.delete\<close>, \<^verbatim>\<open>values()\<close> is \<open>map snd\<close>, \<^verbatim>\<open>size\<close> is
  \<^const>\<open>length\<close> and \<^verbatim>\<open>clear()\<close> leaves \<open>[]\<close>.

  A transport, producer or consumer is an object of the media engine. The service reads
  its \<^verbatim>\<open>id\<close> and \<^verbatim>\<open>kind\<close> and calls its \<^verbatim>\<open>close()\<close>, which may throw;
  \<open>close_throws\<close> records which of the two that call does.
\<close>

record handle =
  hid :: string
  kind :: string
  close_throws :: bool

text \<open>
  The \<^verbatim>\<open>userInfo\<close> argument of \<^verbatim>\<open>addUserToRoom\<close> is the identity object of the
  connection (\<^verbatim>\<open>socket.user\<close>). The service reads its \<^verbatim>\<open>name\<close> and \<^verbatim>\<open>role\<close> and
  copies the whole object into the \<^verbatim>\<open>users\<close> entry with a spread; the handlers read
  its \<^verbatim>\<open>uid\<close>. The object's other properties (\<^verbatim>\<open>email\<close> and the rest of the user's
  profile document: \<^verbatim>\<open>createdAt\<close>, \<^verbatim>\<open>updatedAt\<close>) are read nowhere in the service or
  the handlers and are left out, with one exception. The spread comes after the keys of
  the entry, so an own property of the object called \<^verbatim>\<open>userId\<close> or \<^verbatim>\<open>roomId\<close>
  replaces the entry's key; \<^verbatim>\<open>socket.user\<close> carries the whole profile document of the
  user, whatever properties that has. \<open>own_userId\<close> and \<open>own_roomId\<close> are these two
  properties (\<open>None\<close> when the object has none; their values are taken to be strings,
  as all ids of the model are).
\<close>

record user_info =
  uid :: string
  info_name :: string
  info_role :: string
  own_userId :: "string option"
  own_roomId :: "string option"

record participant =
  userId :: string
  socketId :: string
  name :: string
  role :: string
  joinedAt :: nat
  transports :: "(string \<times> handle) list"
  producers :: "(string \<times> handle) list"
  consumers :: "(string \<times> handle) list"
  rtpCapabilities :: "string option"

record room =
  room_id :: string
  participants :: "(string \<times> participant) list"
  createdAt :: nat

text \<open>An entry of the \<^verbatim>\<open>users\<close> map: \<^verbatim>\<open>{ userId, roomId, ...userInfo }\<close>.\<close>

record user_entry =
  entry_userId :: string
  entry_roomId :: string
  entry_info :: user_info

text \<open>
  What the server does to the outside world, in program order: calls of \<^verbatim>\<open>close()\<close>
  on media handles, \<^verbatim>\<open>console.error\<close>/\<^verbatim>\<open>console.warn\<close> lines, calls of the scheduling
  service and of the media engine, acknowledgement callbacks and pushes over socket.io.
  (\<^verbatim>\<open>console.log\<close> lines are left out.)
\<close>

datatype handle_class = Consumer | Producer | Transport

record chat_message =
  msg_id :: nat
  msg_userId :: string
  msg_name :: string
  msg_role :: string
  msg_text :: "nat list"
  msg_timestamp :: nat

record producer_entry =
  pe_id :: string
  pe_kind :: string
  pe_userId :: string
  pe_userName :: string
  pe_userRole :: string

datatype push =
    UserJoined string string string
  | UserLeft string string string
  | ChatMessage chat_message

datatype ack =
    AckError string
  | AckSuccess
  | AckRoom string string
  | AckJoined string string "producer_entry list"
  | AckConsumer string string
  | AckChat chat_message

datatype event =
    CloseCalled handle_class string
  | ConsoleError string
  | CanUserAccessRoom string string string
  | TransportConsume string string string
  | PersistMessage string chat_message
  | SocketJoin string string
  | SocketLeave string string
  | Callback ack
  | SocketToEmit string string push
  | IoToEmit string push

text \<open>
  The state: the two maps of the \<^verbatim>\<open>RoomService\<close> singleton, and the effects performed
  so far.
\<close>

record state =
  rooms :: "(string \<times> room) list"
  users :: "(string \<times> user_entry) list"
  effects :: "event list"

definition init :: state where
  "init = \<lparr>rooms = [], users = [], effects = []\<rparr>"

definition emit :: "event list \<Rightarrow> state \<Rightarrow> state" where
  "emit es s = s\<lparr>effects := effects s @ es\<rparr>"

section \<open>The room service\<close>

text \<open>\<^verbatim>\<open>createRoom(roomId)\<close>: create or get the room. The clock is a parameter.\<close>

definition createRoom :: "string \<Rightarrow> nat \<Rightarrow> state \<Rightarrow> state" where
  "createRoom roomId now s =
     (if map_of (rooms s) roomId = None
      then s\<lparr>rooms := AList.update roomId
                \<lparr>room_id = roomId, participants = [], createdAt = now\<rparr> (rooms s)\<rparr>
      else s)"

definition getRoom :: "state \<Rightarrow> string \<Rightarrow> room option" where
  "getRoom s roomId = map_of (rooms s) roomId"

definition roomExists :: "state \<Rightarrow> string \<Rightarrow> bool" where
  "roomExists s roomId = (map_of (rooms s) roomId \<noteq> None)"

text \<open>
  \<^verbatim>\<open>addUserToRoom(roomId, userId, socketId, userInfo)\<close>. The room object returned by
  \<^verbatim>\<open>createRoom\<close> is the one stored in \<^verbatim>\<open>rooms\<close>, so \<^verbatim>\<open>room.participants.set\<close> changes
  the stored room in place. (After \<^verbatim>\<open>createRoom\<close> the room is always there: the \<open>None\<close>
  case below is never taken.)
\<close>

definition new_participant :: "string \<Rightarrow> string \<Rightarrow> user_info \<Rightarrow> nat \<Rightarrow> participant" where
  "new_participant uId sId userInfo now =
     \<lparr>userId = uId, socketId = sId, name = info_name userInfo, role = info_role userInfo,
      joinedAt = now, transports = [], producers = [], consumers = [],
      rtpCapabilities = None\<rparr>"

text \<open>The \<^verbatim>\<open>users\<close> entry \<^verbatim>\<open>{ userId, roomId, ...userInfo }\<close>.\<close>

definition users_entry :: "string \<Rightarrow> string \<Rightarrow> user_info \<Rightarrow> user_entry" where
  "users_entry uId roomId userInfo =
     \<lparr>entry_userId = (case own_userId userInfo of None \<Rightarrow> uId | Some v \<Rightarrow> v),
      entry_roomId = (case own_roomId userInfo of None \<Rightarrow> roomId | Some v \<Rightarrow> v),
      entry_info = userInfo\<rparr>"

definition addUserToRoom ::
  "string \<Rightarrow> string \<Rightarrow> string \<Rightarrow> user_info \<Rightarrow> nat \<Rightarrow> state \<Rightarrow> state" where
  "addUserToRoom roomId uId sId userInfo now s =
     (let s1 = createRoom roomId now s in
      case map_of (rooms s1) roomId of
        None \<Rightarrow> s1
      | Some r \<Rightarrow>
          s1\<lparr>rooms := AList.update roomId
                (r\<lparr>participants :=
                     AList.update uId (new_participant uId sId userInfo now) (participants r)\<rparr>)
                (rooms s1),
             users := AList.update sId (users_entry uId roomId userInfo) (users s1)\<rparr>)"

text \<open>
  \<^verbatim>\<open>cleanupParticipant(participant)\<close>: three loops, each \<^verbatim>\<open>close()\<close> inside its own
  \<^verbatim>\<open>try\<close>/\<^verbatim>\<open>catch\<close> that logs, each loop followed by \<^verbatim>\<open>clear()\<close>.
\<close>

datatype 'a outcome = Returned 'a | Thrown string

definition close :: "handle \<Rightarrow> unit outcome" where
  "close h = (if close_throws h then Thrown ''close failed'' else Returned ())"

definition class_name :: "handle_class \<Rightarrow> string" where
  "class_name c = (case c of Consumer \<Rightarrow> ''consumer'' | Producer \<Rightarrow> ''producer''
                   | Transport \<Rightarrow> ''transport'')"

definition try_close :: "handle_class \<Rightarrow> handle \<Rightarrow> event list" where
  "try_close c h =
     CloseCalled c (hid h) #
     (case close h of
        Returned _ \<Rightarrow> []
      | Thrown _ \<Rightarrow> [ConsoleError (''Error closing '' @ class_name c @ '':'')])"

fun close_each :: "handle_class \<Rightarrow> handle list \<Rightarrow> event list" where
  "close_each c [] = []"
| "close_each c (h # hs) = try_close c h @ close_each c hs"

definition cleanupParticipant :: "participant \<Rightarrow> participant \<times> event list" where
  "cleanupParticipant p =
     (let e1 = close_each Consumer (map snd (consumers p));
          p1 = p\<lparr>consumers := []\<rparr>;
          e2 = close_each Producer (map snd (producers p1));
          p2 = p1\<lparr>producers := []\<rparr>;
          e3 = close_each Transport (map snd (transports p2));
          p3 = p2\<lparr>transports := []\<rparr>
      in (p3, e1 @ e2 @ e3))"

text \<open>
  \<^verbatim>\<open>removeUserFromRoom(socketId)\<close> returns the \<^verbatim>\<open>users\<close> entry, or \<^verbatim>\<open>null\<close> when the
  socket has none. The participant that was cleaned up is deleted from its room, and the
  room is deleted when that leaves it with \<^verbatim>\<open>size === 0\<close>.
\<close>

definition removeUserFromRoom :: "string \<Rightarrow> state \<Rightarrow> user_entry option \<times> state" where
  "removeUserFromRoom sId s =
     (case map_of (users s) sId of
        None \<Rightarrow> (None, s)
      | Some user \<Rightarrow>
          let s1 =
            (case getRoom s (entry_roomId user) of
               None \<Rightarrow> s
             | Some r \<Rightarrow>
                 let (r1, es) =
                   (case map_of (participants r) (entry_userId user) of
                      None \<Rightarrow> (r, [])
                    | Some p \<Rightarrow>
                        (r\<lparr>participants := AList.delete (entry_userId user) (participants r)\<rparr>,
                         snd (cleanupParticipant p)));
                     s' = emit es s
                 in if length (participants r1) = 0
                    then s'\<lparr>rooms := AList.delete (entry_roomId user) (rooms s')\<rparr>
                    else s'\<lparr>rooms := AList.update (entry_roomId user) r1 (rooms s')\<rparr>)
          in (Some user, s1\<lparr>users := AList.delete sId (users s1)\<rparr>))"

definition getUserBySocketId :: "state \<Rightarrow> string \<Rightarrow> user_entry option" where
  "getUserBySocketId s sId = map_of (users s) sId"

definition getParticipant :: "state \<Rightarrow> string \<Rightarrow> string \<Rightarrow> participant option" where
  "getParticipant s roomId uId =
     (case getRoom s roomId of None \<Rightarrow> None | Some r \<Rightarrow> map_of (participants r) uId)"

text \<open>
  The handle registrations change the participant stored in the room in place, and do
  nothing when the participant is not there.
\<close>

definition update_participant ::
  "string \<Rightarrow> string \<Rightarrow> (participant \<Rightarrow> participant) \<Rightarrow> state \<Rightarrow> state" where
  "update_participant roomId uId f s =
     (case getRoom s roomId of
        None \<Rightarrow> s
      | Some r \<Rightarrow>
          (case map_of (participants r) uId of
             None \<Rightarrow> s
           | Some p \<Rightarrow>
               s\<lparr>rooms := AList.update roomId
                    (r\<lparr>participants := AList.update uId (f p) (participants r)\<rparr>) (rooms s)\<rparr>))"

definition addTransport :: "string \<Rightarrow> string \<Rightarrow> handle \<Rightarrow> state \<Rightarrow> state" where
  "addTransport roomId uId transport s =
     update_participant roomId uId
       (\<lambda>p. p\<lparr>transports := AList.update (hid transport) transport (transports p)\<rparr>) s"

definition getTransport :: "state \<Rightarrow> string \<Rightarrow> string \<Rightarrow> string \<Rightarrow> handle option" where
  "getTransport s roomId uId transportId =
     (case getParticipant s roomId uId of
        None \<Rightarrow> None
      | Some p \<Rightarrow> map_of (transports p) transportId)"

definition addProducer :: "string \<Rightarrow> string \<Rightarrow> handle \<Rightarrow> state \<Rightarrow> state" where
  "addProducer roomId uId producer s =
     update_participant roomId uId
       (\<lambda>p. p\<lparr>producers := AList.update (hid producer) producer (producers p)\<rparr>) s"

definition addConsumer :: "string \<Rightarrow> string \<Rightarrow> handle \<Rightarrow> state \<Rightarrow> state" where
  "addConsumer roomId uId consumer s =
     update_participant roomId uId
       (\<lambda>p. p\<lparr>consumers := AList.update (hid consumer) consumer (consumers p)\<rparr>) s"

text \<open>
  \<^verbatim>\<open>getRoomProducers(roomId, excludeUserId = null)\<close>: the nested loops over the
  participants and over each one's producers. The owner's id in an entry is the key of
  the \<^verbatim>\<open>participants\<close> map.
\<close>

definition producer_entry_of :: "string \<Rightarrow> participant \<Rightarrow> handle \<Rightarrow> producer_entry" where
  "producer_entry_of uId p producer =
     \<lparr>pe_id = hid producer, pe_kind = kind producer, pe_userId = uId,
      pe_userName = name p, pe_userRole = role p\<rparr>"

definition getRoomProducers :: "state \<Rightarrow> string \<Rightarrow> string option \<Rightarrow> producer_entry list" where
  "getRoomProducers s roomId excludeUserId =
     (case getRoom s roomId of
        None \<Rightarrow> []
      | Some r \<Rightarrow>
          concat (map (\<lambda>(uId, p).
                    if Some uId \<noteq> excludeUserId
                    then map (producer_entry_of uId p) (map snd (producers p))
                    else [])
                  (participants r)))"

section \<open>The signaling handlers\<close>

text \<open>
  A handler of \<^verbatim>\<open>backend/src/sockets/signaling.js\<close> runs on one connection
  (\<^verbatim>\<open>socket.id\<close>, \<^verbatim>\<open>socket.user\<close>) and takes the state to the state after it, with its
  effects appended. A payload of \<open>None\<close> is a request without a data object: the
  destructuring at the top of the handler throws and the handler's \<^verbatim>\<open>catch\<close> answers.
  The acknowledgement callback is taken to be there, except in \<^verbatim>\<open>leaveRoom\<close>, which
  tests for it. What an awaited outside call answers is a parameter: the scheduling
  service's \<^verbatim>\<open>canUserAccessRoom(userId, roomId, userRole)\<close> (which catches its own errors
  and answers \<^verbatim>\<open>false\<close>), the router's \<^verbatim>\<open>canConsume\<close> and capabilities, the
  transport's \<^verbatim>\<open>consume\<close>, and the Firestore write of a chat message. While a
  handler awaits, other handlers may run; a handler is modelled on the state it resumes
  in. The \<^verbatim>\<open>createRoom\<close> and \<^verbatim>\<open>joinRoom\<close> handlers touch the maps only after their
  one await, the \<^verbatim>\<open>chat:message\<close> handler never writes them; the \<^verbatim>\<open>consume\<close>
  handler looks up the connection and the transport before its await and stores the
  consumer after it, which the model takes on one state.
\<close>

record socket =
  socket_id :: string
  user :: user_info

definition createRoom_handler ::
  "(string \<Rightarrow> string \<Rightarrow> string \<Rightarrow> bool) \<Rightarrow> string \<Rightarrow> socket \<Rightarrow> string option \<Rightarrow> nat
     \<Rightarrow> state \<Rightarrow> state" where
  "createRoom_handler canUserAccessRoom routerRtpCapabilities sock data now s =
     (case data of
        None \<Rightarrow>
          emit [ConsoleError ''Error creating room:'',
                Callback (AckError ''Failed to create room'')] s
      | Some roomId \<Rightarrow>
          if info_role (user sock) \<noteq> ''teacher''
          then emit [Callback (AckError ''Only teachers can create rooms'')] s
          else
            let s1 = emit [CanUserAccessRoom (uid (user sock)) roomId (info_role (user sock))] s
            in if \<not> canUserAccessRoom (uid (user sock)) roomId (info_role (user sock))
               then emit [Callback (AckError
                      ''You do not have permission to create this room'')] s1
               else
                 let s2 = createRoom roomId now s1;
                     s3 = emit [SocketJoin (socket_id sock) roomId] s2;
                     s4 = addUserToRoom roomId (uid (user sock)) (socket_id sock)
                            (user sock) now s3
                 in emit [Callback (AckRoom roomId routerRtpCapabilities),
                          SocketToEmit (socket_id sock) roomId
                            (UserJoined (uid (user sock)) (info_name (user sock))
                               (info_role (user sock)))] s4)"

definition joinRoom_handler ::
  "(string \<Rightarrow> string \<Rightarrow> string \<Rightarrow> bool) \<Rightarrow> string \<Rightarrow> socket \<Rightarrow> string option \<Rightarrow> nat
     \<Rightarrow> state \<Rightarrow> state" where
  "joinRoom_handler canUserAccessRoom routerRtpCapabilities sock data now s =
     (case data of
        None \<Rightarrow>
          emit [ConsoleError ''Error joining room:'',
                Callback (AckError ''Failed to join room'')] s
      | Some roomId \<Rightarrow>
          let s1 = emit [CanUserAccessRoom (uid (user sock)) roomId (info_role (user sock))] s
          in if \<not> canUserAccessRoom (uid (user sock)) roomId (info_role (user sock))
             then emit [Callback (AckError
                    ''You do not have permission to join this room'')] s1
             else if \<not> roomExists s1 roomId
             then emit [Callback (AckError ''Room does not exist'')] s1
             else
               let s2 = emit [SocketJoin (socket_id sock) roomId] s1;
                   s3 = addUserToRoom roomId (uid (user sock)) (socket_id sock)
                          (user sock) now s2;
                   existingProducers = getRoomProducers s3 roomId (Some (uid (user sock)))
               in emit [Callback (AckJoined roomId routerRtpCapabilities existingProducers),
                        SocketToEmit (socket_id sock) roomId
                          (UserJoined (uid (user sock)) (info_name (user sock))
                             (info_role (user sock)))] s3)"

text \<open>
  \<^verbatim>\<open>consume\<close>: the payload is \<^verbatim>\<open>{ transportId, producerId, rtpCapabilities }\<close>.
\<close>

definition consume_handler ::
  "(string \<Rightarrow> string \<Rightarrow> bool) \<Rightarrow> (handle \<Rightarrow> string \<Rightarrow> string \<Rightarrow> handle outcome) \<Rightarrow> socket
     \<Rightarrow> (string \<times> string \<times> string) option \<Rightarrow> state \<Rightarrow> state" where
  "consume_handler canConsume transport_consume sock data s =
     (case data of
        None \<Rightarrow>
          emit [ConsoleError ''Error creating consumer:'',
                Callback (AckError ''Failed to create consumer'')] s
      | Some (transportId, producerId, caps) \<Rightarrow>
          (case getUserBySocketId s (socket_id sock) of
             None \<Rightarrow> emit [Callback (AckError ''User not found in any room'')] s
           | Some u \<Rightarrow>
               (case getTransport s (entry_roomId u) (entry_userId u) transportId of
                  None \<Rightarrow> emit [Callback (AckError ''Transport not found'')] s
                | Some transport \<Rightarrow>
                    if \<not> canConsume producerId caps
                    then emit [Callback (AckError ''Cannot consume this producer'')] s
                    else
                      let s1 = emit [TransportConsume (hid transport) producerId caps] s
                      in (case transport_consume transport producerId caps of
                            Thrown _ \<Rightarrow>
                              emit [ConsoleError ''Error creating consumer:'',
                                    Callback (AckError ''Failed to create consumer'')] s1
                          | Returned consumer \<Rightarrow>
                              emit [Callback (AckConsumer (hid consumer) (kind consumer))]
                                (addConsumer (entry_roomId u) (entry_userId u) consumer s1)))))"




text \<open>
  \<^verbatim>\<open>leaveRoom\<close> and \<^verbatim>\<open>disconnect\<close>: both call \<^verbatim>\<open>removeUserFromRoom(socket.id)\<close> and
  act only when it returns an entry.
\<close>

definition leaveRoom_handler :: "socket \<Rightarrow> bool \<Rightarrow> state \<Rightarrow> state" where
  "leaveRoom_handler sock has_callback s =
     (case removeUserFromRoom (socket_id sock) s of
        (None, s1) \<Rightarrow> s1
      | (Some u, s1) \<Rightarrow>
          emit ([SocketLeave (socket_id sock) (entry_roomId u),
                 SocketToEmit (socket_id sock) (entry_roomId u)
                   (UserLeft (entry_userId u) (info_name (entry_info u))
                      (info_role (entry_info u)))]
                @ (if has_callback then [Callback AckSuccess] else [])) s1)"

definition disconnect_handler :: "socket \<Rightarrow> state \<Rightarrow> state" where
  "disconnect_handler sock s =
     (case removeUserFromRoom (socket_id sock) s of
        (None, s1) \<Rightarrow> s1
      | (Some u, s1) \<Rightarrow>
          emit [SocketToEmit (socket_id sock) (entry_roomId u)
                  (UserLeft (entry_userId u) (info_name (entry_info u))
                     (info_role (entry_info u)))] s1)"

section \<open>Vocabulary of the properties\<close>

text \<open>
  The room that \<^verbatim>\<open>addUserToRoom\<close> works on: the stored one, or the one that
  \<^verbatim>\<open>createRoom\<close> has just made.
\<close>

definition existing_or_new :: "state \<Rightarrow> string \<Rightarrow> nat \<Rightarrow> room" where
  "existing_or_new s roomId now =
     (case map_of (rooms s) roomId of
        None \<Rightarrow> \<lparr>room_id = roomId, participants = [], createdAt = now\<rparr>
      | Some r \<Rightarrow> r)"

text \<open>Kinds of effects.\<close>

definition is_close_call :: "event \<Rightarrow> bool" where
  "is_close_call e = (case e of CloseCalled _ _ \<Rightarrow> True | _ \<Rightarrow> False)"

definition is_console_error :: "event \<Rightarrow> bool" where
  "is_console_error e = (case e of ConsoleError _ \<Rightarrow> True | _ \<Rightarrow> False)"






text \<open>No stored room has \<^verbatim>\<open>participants.size === 0\<close>.\<close>

definition no_empty_room :: "state \<Rightarrow> bool" where
  "no_empty_room s = list_all (\<lambda>(roomId, r). participants r \<noteq> []) (rooms s)"


text \<open>A teacher, a student, two media handles and two states, for concrete instances.\<close>

definition example_teacher :: user_info where
  "example_teacher =
     \<lparr>uid = ''t1'', info_name = ''Tina'', info_role = ''teacher'',
      own_userId = None, own_roomId = None\<rparr>"

definition example_student :: user_info where
  "example_student =
     \<lparr>uid = ''u2'', info_name = ''Sam'', info_role = ''student'',
      own_userId = None, own_roomId = None\<rparr>"

text \<open>A teacher whose profile document has a property \<^verbatim>\<open>roomId\<close> of its own.\<close>

definition example_tagged_teacher :: user_info where
  "example_tagged_teacher =
     \<lparr>uid = ''t1'', info_name = ''Tina'', info_role = ''teacher'',
      own_userId = None, own_roomId = Some ''r9''\<rparr>"

definition example_camera :: handle where
  "example_camera = \<lparr>hid = ''p1'', kind = ''video'', close_throws = True\<rparr>"

definition example_transport :: handle where
  "example_transport = \<lparr>hid = ''x1'', kind = ''transport'', close_throws = False\<rparr>"

text \<open>Room r1 with the teacher alone, holding a transport and a producer.\<close>

definition example_solo :: state where
  "example_solo =
     addProducer ''r1'' ''t1'' example_camera
       (addTransport ''r1'' ''t1'' example_transport
          (addUserToRoom ''r1'' ''t1'' ''sA'' example_teacher 1 init))"

text \<open>The same room after the student joined.\<close>

definition example_class :: state where
  "example_class = addUserToRoom ''r1'' ''u2'' ''sB'' example_student 2 example_solo"

definition example_teacher_socket :: socket where
  "example_teacher_socket = \<lparr>socket_id = ''sA'', user = example_teacher\<rparr>"

definition example_student_socket :: socket where
  "example_student_socket = \<lparr>socket_id = ''sB'', user = example_student\<rparr>"









section \<open>Properties\<close>

subsection \<open>Effects and the two maps under the service calls\<close>

lemma rooms_emit [simp]: "rooms (emit es s) = rooms s"
  and users_emit [simp]: "users (emit es s) = users s"
  and effects_emit [simp]: "effects (emit es s) = effects s @ es"
  by (simp_all add: emit_def)

lemma emit_emit: "emit es2 (emit es1 s) = emit (es1 @ es2) s"
  by (simp add: emit_def)

lemma users_createRoom [simp]: "users (createRoom roomId now s) = users s"
  and effects_createRoom [simp]: "effects (createRoom roomId now s) = effects s"
  by (simp_all add: createRoom_def)


lemma rooms_addUserToRoom:
  "rooms (addUserToRoom roomId uId sId userInfo now s) =
     AList.update roomId
       ((existing_or_new s roomId now)\<lparr>participants :=
           AList.update uId (new_participant uId sId userInfo now)
             (participants (existing_or_new s roomId now))\<rparr>)
       (rooms s)"
  by (cases "map_of (rooms s) roomId")
     (simp_all add: addUserToRoom_def createRoom_def existing_or_new_def update_conv')

lemma users_addUserToRoom:
  "users (addUserToRoom roomId uId sId userInfo now s) =
     AList.update sId (users_entry uId roomId userInfo) (users s)"
  by (cases "map_of (rooms s) roomId")
     (simp_all add: addUserToRoom_def createRoom_def update_conv')

lemma effects_addUserToRoom: "effects (addUserToRoom roomId uId sId userInfo now s) = effects s"
  by (cases "map_of (rooms s) roomId")
     (simp_all add: addUserToRoom_def createRoom_def update_conv')

lemma roomExists_emit [simp]: "roomExists (emit es s) roomId = roomExists s roomId"
  by (simp add: roomExists_def)




lemma removeUserFromRoom_absent:
  "map_of (users s) sId = None \<Longrightarrow> removeUserFromRoom sId s = (None, s)"
  by (simp add: removeUserFromRoom_def)

lemma users_removeUserFromRoom:
  "users (snd (removeUserFromRoom sId s)) = AList.delete sId (users s)"
  by (auto simp: removeUserFromRoom_def Let_def getRoom_def map_of_eq_None_iff
           split: option.splits prod.splits)

lemma index_after_remove:
  "map_of (users (snd (removeUserFromRoom sId s))) sId = None"
  by (simp add: users_removeUserFromRoom delete_conv')


lemma example_solo_eq:
  "example_solo =
     \<lparr>rooms = [(''r1'', \<lparr>room_id = ''r1'',
         participants = [(''t1'', \<lparr>userId = ''t1'', socketId = ''sA'', name = ''Tina'',
            role = ''teacher'', joinedAt = 1, transports = [(''x1'', example_transport)],
            producers = [(''p1'', example_camera)], consumers = [],
            rtpCapabilities = None\<rparr>)],
         createdAt = 1\<rparr>)],
      users = [(''sA'', \<lparr>entry_userId = ''t1'', entry_roomId = ''r1'',
                         entry_info = example_teacher\<rparr>)],
      effects = []\<rparr>"
  by (simp add: example_solo_def example_teacher_def example_camera_def example_transport_def
      init_def createRoom_def getRoom_def new_participant_def addUserToRoom_def users_entry_def
      update_participant_def addTransport_def addProducer_def)

lemma example_class_eq:
  "example_class =
     \<lparr>rooms = [(''r1'', \<lparr>room_id = ''r1'',
         participants = [(''t1'', \<lparr>userId = ''t1'', socketId = ''sA'', name = ''Tina'',
            role = ''teacher'', joinedAt = 1, transports = [(''x1'', example_transport)],
            producers = [(''p1'', example_camera)], consumers = [],
            rtpCapabilities = None\<rparr>),
           (''u2'', \<lparr>userId = ''u2'', socketId = ''sB'', name = ''Sam'',
            role = ''student'', joinedAt = 2, transports = [],
            producers = [], consumers = [], rtpCapabilities = None\<rparr>)],
         createdAt = 1\<rparr>)],
      users = [(''sA'', \<lparr>entry_userId = ''t1'', entry_roomId = ''r1'',
                         entry_info = example_teacher\<rparr>),
               (''sB'', \<lparr>entry_userId = ''u2'', entry_roomId = ''r1'',
                         entry_info = example_student\<rparr>)],
      effects = []\<rparr>"
  by (simp add: example_class_def example_solo_eq example_student_def
      createRoom_def new_participant_def addUserToRoom_def users_entry_def)

subsection \<open>Room lifecycle (C1)\<close>


lemma no_empty_room_emit [simp]: "no_empty_room (emit es s) = no_empty_room s"
  by (simp add: no_empty_room_def)













text \<open>
  Without that condition the round trip can leave the room: the entry names another
  room, so \<^verbatim>\<open>removeUserFromRoom\<close> does not find the participant it added.
\<close>

lemma round_trip_overridden:
  "getRoom (snd (removeUserFromRoom ''sA''
      (addUserToRoom ''r1'' ''t1'' ''sA'' example_tagged_teacher 1 (createRoom ''r1'' 1 init))))
     ''r1'' =
   Some \<lparr>room_id = ''r1'',
     participants = [(''t1'', new_participant ''t1'' ''sA'' example_tagged_teacher 1)],
     createdAt = 1\<rparr>"
  by (simp add: example_tagged_teacher_def init_def createRoom_def addUserToRoom_def
      users_entry_def removeUserFromRoom_def getRoom_def emit_def)




subsection \<open>Authorization gate (C2)\<close>

lemma createRoom_handler_mutation:
  assumes "rooms (createRoom_handler can caps sock data now s) \<noteq> rooms s \<or>
           users (createRoom_handler can caps sock data now s) \<noteq> users s"
  shows "\<exists>roomId rest. data = Some roomId \<and> can (uid (user sock)) roomId (info_role (user sock)) \<and>
           effects (createRoom_handler can caps sock data now s) =
             effects s @ CanUserAccessRoom (uid (user sock)) roomId (info_role (user sock)) # rest"
proof (cases data)
  case None
  with assms show ?thesis by (simp add: createRoom_handler_def)
next
  case (Some roomId)
  have teacher: "info_role (user sock) = ''teacher''"
  proof (rule ccontr)
    assume other: "info_role (user sock) \<noteq> ''teacher''"
    from other Some assms show False by (simp add: createRoom_handler_def)
  qed
  have yes: "can (uid (user sock)) roomId (info_role (user sock))"
  proof (rule ccontr)
    assume no: "\<not> can (uid (user sock)) roomId (info_role (user sock))"
    from teacher no Some assms show False by (auto simp: createRoom_handler_def Let_def)
  qed
  from teacher yes
  have "\<exists>rest. effects (createRoom_handler can caps sock (Some roomId) now s) =
     effects s @ CanUserAccessRoom (uid (user sock)) roomId (info_role (user sock)) # rest"
    by (auto simp: createRoom_handler_def Let_def effects_addUserToRoom)
  with Some yes show ?thesis by blast
qed

lemma joinRoom_handler_effects_accept:
  "can (uid (user sock)) roomId (info_role (user sock)) \<Longrightarrow> roomExists s roomId \<Longrightarrow>
   effects (joinRoom_handler can caps sock (Some roomId) now s) =
     effects s @ [CanUserAccessRoom (uid (user sock)) roomId (info_role (user sock)),
                  SocketJoin (socket_id sock) roomId,
                  Callback (AckJoined roomId caps
                    (getRoomProducers
                       (addUserToRoom roomId (uid (user sock)) (socket_id sock) (user sock) now
                          (emit [CanUserAccessRoom (uid (user sock)) roomId (info_role (user sock)),
                                 SocketJoin (socket_id sock) roomId] s))
                       roomId (Some (uid (user sock))))),
                  SocketToEmit (socket_id sock) roomId
                    (UserJoined (uid (user sock)) (info_name (user sock)) (info_role (user sock)))]"
  by (simp add: joinRoom_handler_def Let_def effects_addUserToRoom emit_emit)

lemma joinRoom_handler_mutation:
  assumes "rooms (joinRoom_handler can caps sock data now s) \<noteq> rooms s \<or>
           users (joinRoom_handler can caps sock data now s) \<noteq> users s"
  shows "\<exists>roomId rest. data = Some roomId \<and> can (uid (user sock)) roomId (info_role (user sock)) \<and>
           effects (joinRoom_handler can caps sock data now s) =
             effects s @ CanUserAccessRoom (uid (user sock)) roomId (info_role (user sock)) # rest"
proof (cases data)
  case None
  with assms show ?thesis by (simp add: joinRoom_handler_def)
next
  case (Some roomId)
  have yes: "can (uid (user sock)) roomId (info_role (user sock))"
  proof (rule ccontr)
    assume no: "\<not> can (uid (user sock)) roomId (info_role (user sock))"
    from no Some assms show False by (simp add: joinRoom_handler_def Let_def)
  qed
  have there: "roomExists s roomId"
  proof (rule ccontr)
    assume absent: "\<not> roomExists s roomId"
    from absent yes Some assms show False by (simp add: joinRoom_handler_def Let_def)
  qed
  from yes there
  have "\<exists>rest. effects (joinRoom_handler can caps sock (Some roomId) now s) =
     effects s @ CanUserAccessRoom (uid (user sock)) roomId (info_role (user sock)) # rest"
    by (simp add: joinRoom_handler_effects_accept [of can sock roomId s caps now])
  with Some yes show ?thesis by blast
qed

text \<open>
  Claim C2 (authorization gate). When \<^verbatim>\<open>canUserAccessRoom\<close> answers no, the
  \<^verbatim>\<open>createRoom\<close> and \<^verbatim>\<open>joinRoom\<close> handlers leave \<^verbatim>\<open>rooms\<close> and \<^verbatim>\<open>users\<close> as
  they were and end with an error callback. And whenever one of the two handlers changes
  \<^verbatim>\<open>rooms\<close> or \<^verbatim>\<open>users\<close>, the call of \<^verbatim>\<open>canUserAccessRoom\<close> is the first thing
  the handler did and its answer was yes.
\<close>

theorem authorization_gate:
  "(\<not> can (uid (user sock)) roomId (info_role (user sock)) \<longrightarrow>
      rooms (createRoom_handler can caps sock (Some roomId) now s) = rooms s \<and>
      users (createRoom_handler can caps sock (Some roomId) now s) = users s \<and>
      (\<exists>pre msg. effects (createRoom_handler can caps sock (Some roomId) now s) =
                   effects s @ pre @ [Callback (AckError msg)]) \<and>
      joinRoom_handler can caps sock (Some roomId) now s =
        emit [CanUserAccessRoom (uid (user sock)) roomId (info_role (user sock)),
              Callback (AckError ''You do not have permission to join this room'')] s) \<and>
   (rooms (createRoom_handler can caps sock data now s) \<noteq> rooms s \<or>
    users (createRoom_handler can caps sock data now s) \<noteq> users s \<longrightarrow>
      (\<exists>roomId rest. data = Some roomId \<and> can (uid (user sock)) roomId (info_role (user sock)) \<and>
         effects (createRoom_handler can caps sock data now s) =
           effects s @ CanUserAccessRoom (uid (user sock)) roomId (info_role (user sock)) # rest)) \<and>
   (rooms (joinRoom_handler can caps sock data now s) \<noteq> rooms s \<or>
    users (joinRoom_handler can caps sock data now s) \<noteq> users s \<longrightarrow>
      (\<exists>roomId rest. data = Some roomId \<and> can (uid (user sock)) roomId (info_role (user sock)) \<and>
         effects (joinRoom_handler can caps sock data now s) =
           effects s @ CanUserAccessRoom (uid (user sock)) roomId (info_role (user sock)) # rest))"
proof -
  have reject: "rooms (createRoom_handler can caps sock (Some roomId) now s) = rooms s \<and>
      users (createRoom_handler can caps sock (Some roomId) now s) = users s \<and>
      (\<exists>pre msg. effects (createRoom_handler can caps sock (Some roomId) now s) =
                   effects s @ pre @ [Callback (AckError msg)]) \<and>
      joinRoom_handler can caps sock (Some roomId) now s =
        emit [CanUserAccessRoom (uid (user sock)) roomId (info_role (user sock)),
              Callback (AckError ''You do not have permission to join this room'')] s"
    if no: "\<not> can (uid (user sock)) roomId (info_role (user sock))"
  proof -
    have "\<exists>pre msg. effects (createRoom_handler can caps sock (Some roomId) now s) =
                   effects s @ pre @ [Callback (AckError msg)]"
    proof (cases "info_role (user sock) = ''teacher''")
      case True
      with no have "effects (createRoom_handler can caps sock (Some roomId) now s) =
          effects s @ [CanUserAccessRoom (uid (user sock)) roomId (info_role (user sock))] @
            [Callback (AckError ''You do not have permission to create this room'')]"
        by (auto simp: createRoom_handler_def Let_def)
      then show ?thesis by blast
    next
      case False
      then have "effects (createRoom_handler can caps sock (Some roomId) now s) =
          effects s @ [] @ [Callback (AckError ''Only teachers can create rooms'')]"
        by (simp add: createRoom_handler_def)
      then show ?thesis by blast
    qed
    moreover from no have "rooms (createRoom_handler can caps sock (Some roomId) now s) = rooms s"
      and "users (createRoom_handler can caps sock (Some roomId) now s) = users s"
      by (auto simp: createRoom_handler_def Let_def)
    moreover from no have "joinRoom_handler can caps sock (Some roomId) now s =
        emit [CanUserAccessRoom (uid (user sock)) roomId (info_role (user sock)),
              Callback (AckError ''You do not have permission to join this room'')] s"
      by (simp add: joinRoom_handler_def Let_def emit_emit)
    ultimately show ?thesis by simp
  qed
  show ?thesis
    using reject createRoom_handler_mutation [of can caps sock data now s]
      joinRoom_handler_mutation [of can caps sock data now s]
    by blast
qed

theorem authorization_gate_witness:
  "\<not> (\<lambda>u r k. False) (uid (user example_student_socket)) ''r1''
       (info_role (user example_student_socket)) \<and>
   joinRoom_handler (\<lambda>u r k. False) ''caps'' example_student_socket (Some ''r1'') 2 example_solo =
     emit [CanUserAccessRoom ''u2'' ''r1'' ''student'',
           Callback (AckError ''You do not have permission to join this room'')] example_solo \<and>
   rooms (createRoom_handler (\<lambda>u r k. False) ''caps'' example_student_socket (Some ''r1'') 2
            example_solo) = rooms example_solo \<and>
   users (createRoom_handler (\<lambda>u r k. False) ''caps'' example_student_socket (Some ''r1'') 2
            example_solo) = users example_solo \<and>
   users (joinRoom_handler (\<lambda>u r k. True) ''caps'' example_student_socket (Some ''r1'') 2
            example_solo) \<noteq> users example_solo \<and>
   take 1 (effects (joinRoom_handler (\<lambda>u r k. True) ''caps'' example_student_socket
            (Some ''r1'') 2 example_solo)) = [CanUserAccessRoom ''u2'' ''r1'' ''student'']"
proof -
  let ?no = "\<lambda>(u::string) (r::string) (k::string). False"
  let ?yes = "\<lambda>(u::string) (r::string) (k::string). True"
  have rejected:
    "joinRoom_handler ?no ''caps'' example_student_socket (Some ''r1'') 2 example_solo =
       emit [CanUserAccessRoom ''u2'' ''r1'' ''student'',
             Callback (AckError ''You do not have permission to join this room'')] example_solo \<and>
     rooms (createRoom_handler ?no ''caps'' example_student_socket (Some ''r1'') 2 example_solo) =
       rooms example_solo \<and>
     users (createRoom_handler ?no ''caps'' example_student_socket (Some ''r1'') 2 example_solo) =
       users example_solo"
    using authorization_gate [of ?no example_student_socket "''r1''" "''caps''" 2
        example_solo "Some ''r1''"]
    by (simp add: example_student_socket_def example_student_def)
  have changed:
    "users (joinRoom_handler ?yes ''caps'' example_student_socket (Some ''r1'') 2 example_solo)
       \<noteq> users example_solo"
    by (simp add: joinRoom_handler_def Let_def roomExists_def users_addUserToRoom
        example_solo_eq emit_def example_student_socket_def)
  have "effects example_solo = []"
    by (simp add: example_solo_eq)
  with changed
  have "take 1 (effects (joinRoom_handler ?yes ''caps'' example_student_socket
            (Some ''r1'') 2 example_solo)) =
          [CanUserAccessRoom (uid (user example_student_socket)) ''r1''
             (info_role (user example_student_socket))]"
    using authorization_gate [of ?yes example_student_socket "''r1''" "''caps''" 2
        example_solo "Some ''r1''"]
    by auto
  then have first:
    "take 1 (effects (joinRoom_handler ?yes ''caps'' example_student_socket
            (Some ''r1'') 2 example_solo)) = [CanUserAccessRoom ''u2'' ''r1'' ''student'']"
    by (simp add: example_student_socket_def example_student_def)
  from rejected changed first show ?thesis by simp
qed

subsection \<open>Cleanup contract (C3)\<close>

lemma close_calls_close_each:
  "filter is_close_call (close_each c hs) = map (\<lambda>h. CloseCalled c (hid h)) hs"
  by (induction hs) (simp_all add: try_close_def is_close_call_def split: outcome.splits)

lemma console_errors_close_each:
  "filter is_console_error (close_each c hs) =
     map (\<lambda>h. ConsoleError (''Error closing '' @ class_name c @ '':'')) (filter close_throws hs)"
  by (induction hs) (simp_all add: try_close_def is_console_error_def close_def)

lemma only_close_and_log:
  "list_all (\<lambda>e. is_close_call e \<or> is_console_error e) (close_each c hs)"
  by (induction hs)
     (auto simp: try_close_def is_close_call_def is_console_error_def split: outcome.splits)

text \<open>
  Claim C3 (cleanup contract). For every participant, \<^verbatim>\<open>cleanupParticipant\<close> calls
  \<^verbatim>\<open>close()\<close> once on every consumer, then once on every producer, then once on every
  transport, in the order of the maps, whichever of these calls throw; every call that
  throws is answered by one logged line and nothing else; and the participant is left
  with its three handle maps empty. The function has no way to fail: each \<^verbatim>\<open>close()\<close>
  is inside its own \<^verbatim>\<open>try\<close>, so the model's result is always a participant and a list
  of effects.
\<close>

theorem cleanup_contract:
  "fst (cleanupParticipant p) = p\<lparr>consumers := [], producers := [], transports := []\<rparr> \<and>
   filter is_close_call (snd (cleanupParticipant p)) =
     map (\<lambda>h. CloseCalled Consumer (hid h)) (map snd (consumers p)) @
     map (\<lambda>h. CloseCalled Producer (hid h)) (map snd (producers p)) @
     map (\<lambda>h. CloseCalled Transport (hid h)) (map snd (transports p)) \<and>
   filter is_console_error (snd (cleanupParticipant p)) =
     map (\<lambda>h. ConsoleError ''Error closing consumer:'') (filter close_throws (map snd (consumers p))) @
     map (\<lambda>h. ConsoleError ''Error closing producer:'') (filter close_throws (map snd (producers p))) @
     map (\<lambda>h. ConsoleError ''Error closing transport:'') (filter close_throws (map snd (transports p))) \<and>
   list_all (\<lambda>e. is_close_call e \<or> is_console_error e) (snd (cleanupParticipant p))"
  by (simp add: cleanupParticipant_def Let_def close_calls_close_each console_errors_close_each
      class_name_def only_close_and_log)

theorem cleanup_contract_witness:
  "filter is_close_call
     (snd (cleanupParticipant
        \<lparr>userId = ''t1'', socketId = ''sA'', name = ''Tina'', role = ''teacher'', joinedAt = 1,
         transports = [(''x1'', example_transport)], producers = [(''p1'', example_camera)],
         consumers = [], rtpCapabilities = None\<rparr>)) =
     [CloseCalled Producer ''p1'', CloseCalled Transport ''x1''] \<and>
   filter is_console_error
     (snd (cleanupParticipant
        \<lparr>userId = ''t1'', socketId = ''sA'', name = ''Tina'', role = ''teacher'', joinedAt = 1,
         transports = [(''x1'', example_transport)], producers = [(''p1'', example_camera)],
         consumers = [], rtpCapabilities = None\<rparr>)) =
     [ConsoleError ''Error closing producer:'']"
  using cleanup_contract [of "\<lparr>userId = ''t1'', socketId = ''sA'', name = ''Tina'',
         role = ''teacher'', joinedAt = 1,
         transports = [(''x1'', example_transport)], producers = [(''p1'', example_camera)],
         consumers = [], rtpCapabilities = None\<rparr>"]
  by (simp add: example_camera_def example_transport_def)

subsection \<open>Connection index consistency (C4)\<close>





lemma delete_empty_lookup:
  "AList.delete k xs = [] \<Longrightarrow> k' \<noteq> k \<Longrightarrow> map_of xs k' = None"
  by (metis map_of_delete map_of.simps(1))



















subsection \<open>Double removal (C5)\<close>

text \<open>
  Claim C5 (idempotent double removal). For a connection with no entry in \<^verbatim>\<open>users\<close>,
  \<^verbatim>\<open>removeUserFromRoom\<close> returns \<^verbatim>\<open>null\<close> and leaves the state as it was, and the
  \<^verbatim>\<open>leaveRoom\<close> and \<^verbatim>\<open>disconnect\<close> handlers leave the state as it was, effects
  included: no error, no \<^verbatim>\<open>userLeft\<close> push, no callback. In particular a second
  \<^verbatim>\<open>leaveRoom\<close> or \<^verbatim>\<open>disconnect\<close> right after a first one on the same connection does
  nothing.
\<close>

theorem double_removal:
  "(getUserBySocketId s (socket_id sock) = None \<longrightarrow>
      removeUserFromRoom (socket_id sock) s = (None, s) \<and>
      leaveRoom_handler sock cb s = s \<and>
      disconnect_handler sock s = s) \<and>
   leaveRoom_handler sock cb2 (leaveRoom_handler sock cb1 s) = leaveRoom_handler sock cb1 s \<and>
   disconnect_handler sock (leaveRoom_handler sock cb1 s) = leaveRoom_handler sock cb1 s \<and>
   leaveRoom_handler sock cb2 (disconnect_handler sock s) = disconnect_handler sock s"
proof -
  have absent: "leaveRoom_handler sock c t = t \<and> disconnect_handler sock t = t"
    if "map_of (users t) (socket_id sock) = None" for t c
    using that by (simp add: leaveRoom_handler_def disconnect_handler_def removeUserFromRoom_absent)
  have gone_leave: "map_of (users (leaveRoom_handler sock c s)) (socket_id sock) = None" for c
    using index_after_remove [of "socket_id sock" s]
    by (cases "removeUserFromRoom (socket_id sock) s")
       (auto simp: leaveRoom_handler_def split: option.splits)
  have gone_disc: "map_of (users (disconnect_handler sock s)) (socket_id sock) = None"
    using index_after_remove [of "socket_id sock" s]
    by (cases "removeUserFromRoom (socket_id sock) s")
       (auto simp: disconnect_handler_def split: option.splits)
  show ?thesis
    using absent gone_leave gone_disc
    by (simp add: getUserBySocketId_def removeUserFromRoom_absent)
qed

theorem double_removal_witness:
  "getUserBySocketId (leaveRoom_handler example_student_socket True example_class)
     (socket_id example_student_socket) = None \<and>
   leaveRoom_handler example_student_socket True
     (leaveRoom_handler example_student_socket True example_class) =
     leaveRoom_handler example_student_socket True example_class \<and>
   disconnect_handler example_student_socket
     (leaveRoom_handler example_student_socket True example_class) =
     leaveRoom_handler example_student_socket True example_class \<and>
   effects (leaveRoom_handler example_student_socket True example_class) =
     [SocketLeave ''sB'' ''r1'', SocketToEmit ''sB'' ''r1'' (UserLeft ''u2'' ''Sam'' ''student''),
      Callback AckSuccess]"
  using double_removal [of "leaveRoom_handler example_student_socket True example_class"
      example_student_socket True True True]
  by (simp add: example_student_socket_def example_student_def example_class_eq
      leaveRoom_handler_def removeUserFromRoom_def getRoom_def getUserBySocketId_def
      cleanupParticipant_def emit_def Let_def)

subsection \<open>Producer visibility (C6)\<close>

lemma in_getRoomProducers:
  assumes "getRoom s roomId = Some r"
  shows "e \<in> set (getRoomProducers s roomId ex) \<longleftrightarrow>
           (\<exists>uId p k producer. (uId, p) \<in> set (participants r) \<and> Some uId \<noteq> ex \<and>
              (k, producer) \<in> set (producers p) \<and> e = producer_entry_of uId p producer)"
proof
  assume "e \<in> set (getRoomProducers s roomId ex)"
  with assms obtain uId p where up: "(uId, p) \<in> set (participants r)"
    and e: "e \<in> set (if Some uId \<noteq> ex
                      then map (producer_entry_of uId p) (map snd (producers p)) else [])"
    by (auto simp: getRoomProducers_def)
  from e have ne: "Some uId \<noteq> ex" by (auto split: if_splits)
  with e obtain k producer where "(k, producer) \<in> set (producers p)"
    and "e = producer_entry_of uId p producer"
    by auto
  with up ne show "\<exists>uId p k producer. (uId, p) \<in> set (participants r) \<and> Some uId \<noteq> ex \<and>
              (k, producer) \<in> set (producers p) \<and> e = producer_entry_of uId p producer"
    by blast
next
  assume "\<exists>uId p k producer. (uId, p) \<in> set (participants r) \<and> Some uId \<noteq> ex \<and>
              (k, producer) \<in> set (producers p) \<and> e = producer_entry_of uId p producer"
  then obtain uId p k producer where up: "(uId, p) \<in> set (participants r)"
    and ne: "Some uId \<noteq> ex" and kp: "(k, producer) \<in> set (producers p)"
    and e: "e = producer_entry_of uId p producer"
    by blast
  from kp have "producer_entry_of uId p producer \<in>
      set (map (producer_entry_of uId p) (map snd (producers p)))"
    by force
  with ne e have "e \<in> set (if Some uId \<noteq> ex
                      then map (producer_entry_of uId p) (map snd (producers p)) else [])"
    by (simp del: set_map map_map)
  with up assms show "e \<in> set (getRoomProducers s roomId ex)"
    by (force simp: getRoomProducers_def)
qed

lemma getRoomProducers_absent:
  "getRoom s roomId = None \<Longrightarrow> getRoomProducers s roomId ex = []"
  by (simp add: getRoomProducers_def)

text \<open>
  Claim C6 (producer visibility exclusion). In a room that exists,
  \<^verbatim>\<open>getRoomProducers(roomId, x)\<close> returns no entry owned by \<open>x\<close>; for every other
  participant of the room and every producer it holds, it returns the entry with the
  producer's id and kind and the owner's id, name and role; and it returns nothing else.
\<close>

theorem producer_visibility:
  "(\<forall>e \<in> set (getRoomProducers s roomId (Some x)). pe_userId e \<noteq> x) \<and>
   (getRoom s roomId = Some r \<longrightarrow>
      (\<forall>(uId, p) \<in> set (participants r). uId \<noteq> x \<longrightarrow>
         (\<forall>(k, producer) \<in> set (producers p).
            \<lparr>pe_id = hid producer, pe_kind = kind producer, pe_userId = uId,
             pe_userName = name p, pe_userRole = role p\<rparr>
              \<in> set (getRoomProducers s roomId (Some x)))) \<and>
      (\<forall>e \<in> set (getRoomProducers s roomId (Some x)).
         \<exists>(uId, p) \<in> set (participants r). \<exists>(k, producer) \<in> set (producers p).
            e = \<lparr>pe_id = hid producer, pe_kind = kind producer, pe_userId = uId,
                  pe_userName = name p, pe_userRole = role p\<rparr>))"
proof -
  have excl: "\<forall>e \<in> set (getRoomProducers s roomId (Some x)). pe_userId e \<noteq> x"
  proof (cases "getRoom s roomId")
    case None
    then show ?thesis by (simp add: getRoomProducers_absent)
  next
    case (Some r')
    from in_getRoomProducers [OF Some] show ?thesis
      by (auto simp: producer_entry_of_def)
  qed
  have incl: "\<forall>(uId, p) \<in> set (participants r). uId \<noteq> x \<longrightarrow>
            (\<forall>(k, producer) \<in> set (producers p).
               \<lparr>pe_id = hid producer, pe_kind = kind producer, pe_userId = uId,
                pe_userName = name p, pe_userRole = role p\<rparr>
                 \<in> set (getRoomProducers s roomId (Some x)))"
    if "getRoom s roomId = Some r"
    using in_getRoomProducers [OF that] by (fastforce simp: producer_entry_of_def)
  have only: "\<forall>e \<in> set (getRoomProducers s roomId (Some x)).
            \<exists>(uId, p) \<in> set (participants r). \<exists>(k, producer) \<in> set (producers p).
               e = \<lparr>pe_id = hid producer, pe_kind = kind producer, pe_userId = uId,
                     pe_userName = name p, pe_userRole = role p\<rparr>"
    if "getRoom s roomId = Some r"
    using in_getRoomProducers [OF that] by (fastforce simp: producer_entry_of_def)
  from excl incl only show ?thesis by blast
qed

theorem producer_visibility_witness:
  "getRoom example_class ''r1'' \<noteq> None \<and>
   getRoomProducers example_class ''r1'' (Some ''u2'') =
     [\<lparr>pe_id = ''p1'', pe_kind = ''video'', pe_userId = ''t1'', pe_userName = ''Tina'',
       pe_userRole = ''teacher''\<rparr>] \<and>
   getRoomProducers example_class ''r1'' (Some ''t1'') = []"
  using producer_visibility [where s = example_class and roomId = "''r1''"
      and r = "the (getRoom example_class ''r1'')" and x = "''u2''"]
  by (simp add: example_class_eq getRoom_def getRoomProducers_def producer_entry_of_def
      example_camera_def)

subsection \<open>Consume precondition (C7)\<close>

text \<open>
  Claim C7 (consume precondition). When the router's \<^verbatim>\<open>canConsume\<close> answers false for
  the request's producer and capabilities, the \<^verbatim>\<open>consume\<close> handler does one thing only:
  it calls back with an error. \<^verbatim>\<open>transport.consume\<close> is not called and the rooms, the
  participants and their consumer maps stay as they were. When the connection is joined
  and the transport is found, the error is \<^verbatim>\<open>Cannot consume this producer\<close>.
\<close>

theorem consume_precondition:
  assumes "\<not> canConsume producerId caps"
  shows "(\<exists>msg. consume_handler canConsume transport_consume sock
             (Some (transportId, producerId, caps)) s = emit [Callback (AckError msg)] s) \<and>
         (getUserBySocketId s (socket_id sock) = Some u \<and>
          getTransport s (entry_roomId u) (entry_userId u) transportId = Some transport \<longrightarrow>
            consume_handler canConsume transport_consume sock
              (Some (transportId, producerId, caps)) s =
            emit [Callback (AckError ''Cannot consume this producer'')] s)"
  using assms by (auto simp: consume_handler_def split: option.splits)

theorem consume_precondition_witness:
  "\<not> (\<lambda>p c. False) ''p1'' ''caps'' \<and>
   consume_handler (\<lambda>p c. False) (\<lambda>t p c. Returned example_camera) example_teacher_socket
     (Some (''x1'', ''p1'', ''caps'')) example_class =
     emit [Callback (AckError ''Cannot consume this producer'')] example_class"
  using consume_precondition [where canConsume = "\<lambda>p c. False" and producerId = "''p1''"
      and caps = "''caps''" and transport_consume = "\<lambda>t p c. Returned example_camera"
      and sock = example_teacher_socket and transportId = "''x1''" and s = example_class
      and u = "\<lparr>entry_userId = ''t1'', entry_roomId = ''r1'', entry_info = example_teacher\<rparr>"
      and transport = example_transport]
  by (simp add: example_teacher_socket_def example_class_eq consume_handler_def
      getUserBySocketId_def getTransport_def getParticipant_def getRoom_def)

subsection \<open>Duplicate join (C8)\<close>

lemma getParticipant_addUserToRoom:
  "getParticipant (addUserToRoom roomId uId sId userInfo now s) roomId uId =
     Some (new_participant uId sId userInfo now)"
  by (simp add: getParticipant_def getRoom_def rooms_addUserToRoom update_conv')

lemma keys_addUserToRoom_present:
  assumes "getRoom s roomId = Some r" and "map_of (participants r) uId = Some old"
  shows "map_option (map fst \<circ> participants)
           (getRoom (addUserToRoom roomId uId sId userInfo now s) roomId) =
         Some (map fst (participants r))"
proof -
  from assms(2) have "uId \<in> fst ` set (participants r)"
    by (metis map_of_eq_None_iff option.distinct(1))
  with assms(1) show ?thesis
    by (simp add: getRoom_def rooms_addUserToRoom update_conv' existing_or_new_def update_keys)
qed

text \<open>
  Claim C8 (duplicate join overwrites without cleanup). When the room already holds a
  participant with the given id, \<^verbatim>\<open>addUserToRoom\<close> for that id stores a fresh participant
  record in its place (the new socket id, empty \<^verbatim>\<open>transports\<close>, \<^verbatim>\<open>producers\<close> and
  \<^verbatim>\<open>consumers\<close>), the room has the same participant ids as before, and no effect is
  performed: nothing of the replaced record is closed or released.
\<close>

theorem duplicate_join_overwrite:
  assumes "getRoom s roomId = Some r" and "map_of (participants r) uId = Some old"
  shows "getParticipant (addUserToRoom roomId uId sId userInfo now s) roomId uId =
           Some \<lparr>userId = uId, socketId = sId, name = info_name userInfo,
                 role = info_role userInfo, joinedAt = now, transports = [],
                 producers = [], consumers = [], rtpCapabilities = None\<rparr> \<and>
         map_option (map fst \<circ> participants)
           (getRoom (addUserToRoom roomId uId sId userInfo now s) roomId) =
           Some (map fst (participants r)) \<and>
         effects (addUserToRoom roomId uId sId userInfo now s) = effects s"
  using keys_addUserToRoom_present [OF assms]
  by (simp add: getParticipant_addUserToRoom effects_addUserToRoom new_participant_def)

theorem duplicate_join_overwrite_witness:
  "map_option (map fst \<circ> participants) (getRoom example_class ''r1'') = Some [''t1'', ''u2''] \<and>
   map_option producers (getParticipant example_class ''r1'' ''t1'') =
     Some [(''p1'', example_camera)] \<and>
   map_option producers
     (getParticipant (addUserToRoom ''r1'' ''t1'' ''sC'' example_teacher 7 example_class)
        ''r1'' ''t1'') = Some [] \<and>
   map_option socketId
     (getParticipant (addUserToRoom ''r1'' ''t1'' ''sC'' example_teacher 7 example_class)
        ''r1'' ''t1'') = Some ''sC'' \<and>
   map_option (map fst \<circ> participants)
     (getRoom (addUserToRoom ''r1'' ''t1'' ''sC'' example_teacher 7 example_class) ''r1'') =
     Some [''t1'', ''u2''] \<and>
   effects (addUserToRoom ''r1'' ''t1'' ''sC'' example_teacher 7 example_class) = []"
  using duplicate_join_overwrite [where s = example_class and roomId = "''r1''"
      and r = "the (getRoom example_class ''r1'')" and uId = "''t1''"
      and old = "the (getParticipant example_class ''r1'' ''t1'')" and sId = "''sC''"
      and userInfo = example_teacher and now = 7]
  by (simp add: example_class_eq getParticipant_def getRoom_def)

subsection \<open>Chat persistence (C9)\<close>



subsection \<open>Teacher-only creation (C10)\<close>

text \<open>
  Claim C10 (teacher-only creation). A \<^verbatim>\<open>createRoom\<close> request from a connection whose
  role is not \<^verbatim>\<open>teacher\<close> is answered with an error callback and nothing else: the
  scheduling service is not asked, no room is created and no participant is added. (A
  request without a data object fails before the role is looked at; it is answered with
  an error callback too, after a logged line.)
\<close>

theorem teacher_only_creation:
  assumes "info_role (user sock) \<noteq> ''teacher''"
  shows "createRoom_handler canUserAccessRoom caps sock (Some roomId) now s =
           emit [Callback (AckError ''Only teachers can create rooms'')] s \<and>
         createRoom_handler canUserAccessRoom caps sock None now s =
           emit [ConsoleError ''Error creating room:'',
                 Callback (AckError ''Failed to create room'')] s"
  using assms by (simp add: createRoom_handler_def)

theorem teacher_only_creation_witness:
  "info_role (user example_student_socket) \<noteq> ''teacher'' \<and>
   createRoom_handler (\<lambda>u r k. True) ''caps'' example_student_socket (Some ''r9'') 5 example_class =
     emit [Callback (AckError ''Only teachers can create rooms'')] example_class"
  using teacher_only_creation [where sock = example_student_socket
      and canUserAccessRoom = "\<lambda>u r k. True" and caps = "''caps''" and roomId = "''r9''"
      and now = 5 and s = example_class]
  by (simp add: example_student_socket_def example_student_def)

end
